theory Spec2Isabelle
  imports Main "HOL-Library.AList"
begin

section \<open>Data model\<close>

text \<open>
  The exceptions of the Python source are values of the type \<open>error\<close>; a function that
  can raise returns \<open>error + 'a\<close> with \<open>Inl\<close> for the exception.
  \<open>AtomicValueError\<close> is the failure of \<open>Variable.get_atomic_value\<close>, whose code is in
  \<open>flow/variables.py\<close>; the \<open>ValueError\<close> of \<open>get_atomic_constant\<close> carries the name
  of the expected class and of the class found, as its message does.
\<close>

datatype pyclass = C_NoneType | C_bool | C_int | C_str | C_tuple | C_OrderedCode

datatype error =
    KeyError string
  | ValueError pyclass pyclass
  | UnpackError
  | AssertionError
  | NotImplementedError string
  | AttributeError
  | TypeError
  | IndexError
  | AtomicValueError

text \<open>A path condition is an opaque token; \<open>TRUE\<close> is the default of a new Binding.\<close>

datatype condition = TRUE | Condition nat

text \<open>
  \<open>blocks.OrderedCode\<close>, as far as the frame reads it: the qualified name and the
  version of the interpreter the code was compiled for.
\<close>

record ordered_code =
  qualname :: string
  python_version :: "nat \<times> nat"

text \<open>
  Abstract values, Bindings and Variables. A \<open>PythonConstant\<close> wraps a raw constant; the
  tuple built by \<open>BUILD_TUPLE\<close> wraps a tuple of Variables. The constants
  \<open>ctx.consts['__build_class__']\<close> and \<open>ctx.consts['NULL']\<close> are \<open>Singleton\<close> values
  told apart by their name. \<open>Union_v\<close> is the source's \<open>Union\<close>.
  An \<open>InterpreterFunction\<close> has a name, a code object and the
  names of its enclosing scope (its reference to the defining frame is not represented:
  values are immutable terms here). An \<open>InterpreterClass\<close> has a name, its members, and
  the functions and classes defined in its body.
\<close>

datatype pyconst =
    CNone
  | CBool bool
  | CInt int
  | CStr string
  | CCode ordered_code
  | CTuple "variable list"
and base_value =
    ANY
  | PythonConstant pyconst
  | Union_v "base_value list"
  | Singleton string
  | SimpleFunction string
  | InterpreterFunction string ordered_code "string list"
  | BoundFunction base_value base_value
  | InterpreterClass string "(string \<times> base_value) list" "base_value list" "base_value list"
  | Instance base_value
and binding = Binding base_value condition
and variable = Variable "binding list" "string option"

fun bvalue :: "binding \<Rightarrow> base_value" where
  "bvalue (Binding v c) = v"

fun bindings :: "variable \<Rightarrow> binding list" where
  "bindings (Variable bs n) = bs"

fun var_name :: "variable \<Rightarrow> string option" where
  "var_name (Variable bs n) = n"

text \<open>
  Modelled from the spec: \<open>Variable.values\<close> (in \<open>flow/variables.py\<close>), the values
  across all bindings of a Variable, in the order of the bindings.
\<close>

definition values_of :: "variable \<Rightarrow> base_value list" where
  "values_of var = map bvalue (bindings var)"

text \<open>\<open>Variable.with_name\<close>: the same bindings under another display name.\<close>

definition with_name :: "variable \<Rightarrow> string \<Rightarrow> variable" where
  "with_name var n = Variable (bindings var) (Some n)"

text \<open>\<open>BaseValue.to_variable\<close>: one binding, no condition.\<close>

definition to_variable :: "base_value \<Rightarrow> string option \<Rightarrow> variable" where
  "to_variable v n = Variable [Binding v TRUE] n"

definition BUILD_CLASS :: base_value where
  "BUILD_CLASS = Singleton ''__build_class__''"

definition NULL :: base_value where
  "NULL = Singleton ''NULL''"

subsection \<open>Atomic reads\<close>

text \<open>
  Modelled from the spec: \<open>Variable.get_atomic_value\<close> (in \<open>flow/variables.py\<close>)
  "returns the sole AbstractValue if there is exactly one binding and (if a variant filter
  is given) it matches that variant; otherwise fails". The filter is a predicate on values.
\<close>

definition get_atomic_value :: "variable \<Rightarrow> (base_value \<Rightarrow> bool) option \<Rightarrow> error + base_value" where
  "get_atomic_value var filt =
     (case bindings var of
        [b] \<Rightarrow> (case filt of
                  None \<Rightarrow> Inr (bvalue b)
                | Some p \<Rightarrow> if p (bvalue b) then Inr (bvalue b) else Inl AtomicValueError)
      | _ \<Rightarrow> Inl AtomicValueError)"

text \<open>
  Modelled from the spec: \<open>Variable.has_atomic_value\<close> (in \<open>flow/variables.py\<close>), the test
  that goes with the atomic read: exactly one binding, and its value is the given one.
\<close>

definition has_atomic_value :: "variable \<Rightarrow> base_value \<Rightarrow> bool" where
  "has_atomic_value var v = (case bindings var of [b] \<Rightarrow> bvalue b = v | _ \<Rightarrow> False)"

fun is_PythonConstant :: "base_value \<Rightarrow> bool" where
  "is_PythonConstant (PythonConstant c) = True"
| "is_PythonConstant v = False"

fun is_InterpreterFunction :: "base_value \<Rightarrow> bool" where
  "is_InterpreterFunction (InterpreterFunction n c e) = True"
| "is_InterpreterFunction v = False"

text \<open>Python's \<open>isinstance\<close> on raw constants: \<open>bool\<close> is a subclass of \<open>int\<close>.\<close>

fun class_of :: "pyconst \<Rightarrow> pyclass" where
  "class_of CNone = C_NoneType"
| "class_of (CBool b) = C_bool"
| "class_of (CInt i) = C_int"
| "class_of (CStr s) = C_str"
| "class_of (CCode c) = C_OrderedCode"
| "class_of (CTuple vs) = C_tuple"

definition issubclass :: "pyclass \<Rightarrow> pyclass \<Rightarrow> bool" where
  "issubclass c d = (c = d \<or> (c = C_bool \<and> d = C_int))"

definition isinstance :: "pyconst \<Rightarrow> pyclass \<Rightarrow> bool" where
  "isinstance c d = issubclass (class_of c) d"

text \<open>
  The \<open>typ\<close> argument of \<open>get_atomic_constant\<close>: a class, or a generic alias of the
  \<open>typing\<close> module (\<open>Tuple[str, ...]\<close>), whose \<open>get_origin\<close> is the runtime class.
\<close>

datatype typ_hint = Plain pyclass | Generic pyclass

fun get_origin :: "typ_hint \<Rightarrow> pyclass option" where
  "get_origin (Plain c) = None"
| "get_origin (Generic c) = Some c"

text \<open>
  \<open>abstract/utils.py\<close>, \<open>get_atomic_constant\<close>. The walrus assignment
  \<open>runtime_type := get_origin(typ) or typ\<close> is the \<open>case\<close> below; a class given as
  \<open>typ\<close> is truthy, \<open>None\<close> (no \<open>typ\<close>) is not.
\<close>

definition get_atomic_constant :: "variable \<Rightarrow> typ_hint option \<Rightarrow> error + pyconst" where
  "get_atomic_constant var typ =
     (case get_atomic_value var (Some is_PythonConstant) of
        Inl e \<Rightarrow> Inl e
      | Inr v \<Rightarrow>
          (case v of
             PythonConstant c \<Rightarrow>
               (case typ of
                  None \<Rightarrow> Inr c
                | Some t \<Rightarrow>
                    (let runtime_type = (case get_origin t of
                                           Some origin \<Rightarrow> origin
                                         | None \<Rightarrow> (case t of Plain k \<Rightarrow> k | Generic k \<Rightarrow> k))
                     in if \<not> isinstance c runtime_type
                        then Inl (ValueError runtime_type (class_of c))
                        else Inr c))
           | _ \<Rightarrow> Inl AttributeError))"



section \<open>Collaborators of the frame\<close>

text \<open>
  Python dictionaries keep insertion order and are iterated in it: a dictionary is an
  association list, read with \<open>map_of\<close> and written with \<open>AList.update\<close> (which replaces
  the value of a key in place and appends a new key at the end). Equality of two
  dictionaries ignores the order.
\<close>

type_synonym varmap = "(string \<times> variable) list"

definition dict_eq :: "('k \<times> 'v) list \<Rightarrow> ('k \<times> 'v) list \<Rightarrow> bool" where
  "dict_eq a b = list_all (\<lambda>k. map_of a k = map_of b k) (map fst a @ map fst b)"

text \<open>
  \<open>str.rpartition(sep)\<close>: the text before the last separator, the separator, the text
  after it; two empty strings and the whole string when there is no separator.
\<close>

definition rpartition :: "string \<Rightarrow> char \<Rightarrow> string \<times> string \<times> string" where
  "rpartition s sep =
     (if sep \<in> set s
      then (rev (tl (dropWhile (\<lambda>c. c \<noteq> sep) (rev s))), [sep],
            rev (takeWhile (\<lambda>c. c \<noteq> sep) (rev s)))
      else ([], [], s))"

text \<open>
  Modelled from the spec: \<open>abstract.join_values\<close> (not in \<open>abstract/utils.py\<close> as given)
  "returns the single element if exactly one, Any if the sequence is empty, otherwise a
  Union of the distinct elements". The first occurrence of each element is kept.
\<close>

definition join_values :: "base_value list \<Rightarrow> base_value" where
  "join_values vs =
     (case vs of
        [] \<Rightarrow> ANY
      | [v] \<Rightarrow> v
      | _ \<Rightarrow> Union_v (rev (remdups (rev vs))))"

text \<open>
  Modelled from the spec: the execution state (\<open>flow/state.py\<close>) as far as the frame's
  load and store methods use it, "the current mapping from name to Variable" with
  "local-name store/load". A load of an unbound name is a \<open>KeyError\<close>.
\<close>

definition state_load_local :: "varmap \<Rightarrow> string \<Rightarrow> error + variable" where
  "state_load_local st n = (case map_of st n of None \<Rightarrow> Inl (KeyError n) | Some var \<Rightarrow> Inr var)"

definition state_store_local :: "varmap \<Rightarrow> string \<Rightarrow> variable \<Rightarrow> varmap" where
  "state_store_local st n var = AList.update n var st"

text \<open>
  Modelled from the spec: the operand stack (\<open>rewrite/stack.py\<close>), a list whose head is
  the top. \<open>popn n\<close> returns the \<open>n\<close> topmost values, the deepest first.
\<close>

definition stack_pop :: "variable list \<Rightarrow> error + (variable \<times> variable list)" where
  "stack_pop st = (case st of [] \<Rightarrow> Inl IndexError | v # rest \<Rightarrow> Inr (v, rest))"

definition stack_popn :: "variable list \<Rightarrow> nat \<Rightarrow> error + (variable list \<times> variable list)" where
  "stack_popn st n = (if length st < n then Inl IndexError else Inr (rev (take n st), drop n st))"

section \<open>The frame\<close>

text \<open>
  \<open>_ShadowedNonlocals\<close>: two sets of names. A set is a list without duplicates;
  \<open>get_enclosing_names\<close> and \<open>get_global_names\<close> return a \<open>frozenset\<close>, whose iteration
  order Python does not fix: here it is the order of the list.
\<close>

record shadowed_nonlocals =
  u_enclosing :: "string list"
  u_globals :: "string list"

definition add_enclosing :: "shadowed_nonlocals \<Rightarrow> string \<Rightarrow> shadowed_nonlocals" where
  "add_enclosing s n = s\<lparr>u_enclosing := List.insert n (u_enclosing s)\<rparr>"

definition add_global :: "shadowed_nonlocals \<Rightarrow> string \<Rightarrow> shadowed_nonlocals" where
  "add_global s n = s\<lparr>u_globals := List.insert n (u_globals s)\<rparr>"

definition has_enclosing :: "shadowed_nonlocals \<Rightarrow> string \<Rightarrow> bool" where
  "has_enclosing s n = (n \<in> set (u_enclosing s))"

definition has_global :: "shadowed_nonlocals \<Rightarrow> string \<Rightarrow> bool" where
  "has_global s n = (n \<in> set (u_globals s))"

definition get_global_names :: "shadowed_nonlocals \<Rightarrow> string list" where
  "get_global_names s = u_globals s"

definition get_enclosing_names :: "shadowed_nonlocals \<Rightarrow> string list" where
  "get_enclosing_names s = u_enclosing s"

text \<open>
  The class \<open>Frame\<close>. A field \<open>u_x\<close> is the attribute \<open>_x\<close> of the source.
  \<open>u_current_state\<close> holds the local bindings of the current state and is \<open>None\<close> once
  the frame is finalized; \<open>u_final_locals\<close> is the attribute \<open>_final_locals\<close> that the
  base class sets from the state reached after the last instruction. The creating frame
  \<open>u_f_back\<close> is held by value: \<open>'p\<close> is its type, so that the frame a child was created
  by has the type \<open>'q frame\<close> and the child the type \<open>('q frame) frame\<close>. What a child
  writes into its creating frame is read off the child's \<open>u_f_back\<close> afterwards.
\<close>

record 'p frame =
  name :: string
  u_code :: ordered_code
  u_current_state :: "varmap option"
  u_final_locals :: "varmap option"
  final_locals :: "(string \<times> base_value) list option"
  u_initial_enclosing :: varmap
  u_initial_globals :: varmap
  u_f_back :: "'p option"
  u_stack :: "variable list"
  u_shadowed_nonlocals :: shadowed_nonlocals
  u_functions :: "base_value list"
  u_classes :: "base_value list"
  u_returns :: "variable list"

text \<open>
  \<open>Frame.__init__\<close>, with its two assertions. The base class's constructor
  (\<open>flow/frame_base.py\<close>) starts the current state from the initial locals.
\<close>

definition Frame_init ::
  "string \<Rightarrow> ordered_code \<Rightarrow> varmap \<Rightarrow> varmap \<Rightarrow> varmap \<Rightarrow> 'p option \<Rightarrow> error + 'p frame" where
  "Frame_init nm code initial_locals initial_enclosing initial_globals f_back =
     (if \<not> (\<not> (nm = ''__main__'') \<or> dict_eq initial_locals initial_globals) then Inl AssertionError
      else if \<not> (f_back \<noteq> None \<or> \<not> (initial_enclosing \<noteq> [])) then Inl AssertionError
      else Inr \<lparr> name = nm, u_code = code,
                 u_current_state = Some initial_locals,
                 u_final_locals = None,
                 final_locals = None,
                 u_initial_enclosing = initial_enclosing,
                 u_initial_globals = initial_globals,
                 u_f_back = f_back,
                 u_stack = [],
                 u_shadowed_nonlocals = \<lparr> u_enclosing = [], u_globals = [] \<rparr>,
                 u_functions = [], u_classes = [], u_returns = [] \<rparr>)"

definition make_module_frame :: "ordered_code \<Rightarrow> varmap \<Rightarrow> error + 'p frame" where
  "make_module_frame code initial_globals =
     Frame_init ''__main__'' code initial_globals [] initial_globals None"

definition is_module_frame :: "'p frame \<Rightarrow> bool" where
  "is_module_frame f = (name f = ''__main__'')"

subsection \<open>Stores\<close>

definition store_local :: "'p frame \<Rightarrow> string \<Rightarrow> variable \<Rightarrow> error + 'p frame" where
  "store_local f n var =
     (case u_current_state f of
        None \<Rightarrow> Inl AttributeError
      | Some st \<Rightarrow> Inr (f\<lparr>u_current_state := Some (state_store_local st n var)\<rparr>))"

definition store_enclosing :: "'p frame \<Rightarrow> string \<Rightarrow> variable \<Rightarrow> error + 'p frame" where
  "store_enclosing f n var =
     (case store_local f n var of
        Inl e \<Rightarrow> Inl e
      | Inr f' \<Rightarrow> Inr (f'\<lparr>u_shadowed_nonlocals := add_enclosing (u_shadowed_nonlocals f') n\<rparr>))"

definition store_global :: "'p frame \<Rightarrow> string \<Rightarrow> variable \<Rightarrow> error + 'p frame" where
  "store_global f n var =
     (case store_local f n var of
        Inl e \<Rightarrow> Inl e
      | Inr f' \<Rightarrow> Inr (f'\<lparr>u_shadowed_nonlocals := add_global (u_shadowed_nonlocals f') n\<rparr>))"

definition store_deref :: "'p frame \<Rightarrow> string \<Rightarrow> variable \<Rightarrow> error + 'p frame" where
  "store_deref f n var =
     (if n \<in> fst ` set (u_initial_enclosing f) then store_enclosing f n var
      else store_local f n var)"

subsection \<open>Loads\<close>

definition shadows_enclosing :: "'p frame \<Rightarrow> string \<Rightarrow> bool" where
  "shadows_enclosing f n = has_enclosing (u_shadowed_nonlocals f) n"

definition shadows_global :: "'p frame \<Rightarrow> string \<Rightarrow> bool" where
  "shadows_global f n =
     (if is_module_frame f then False else has_global (u_shadowed_nonlocals f) n)"

definition current_load_local :: "'p frame \<Rightarrow> string \<Rightarrow> error + variable" where
  "current_load_local f n =
     (case u_current_state f of
        None \<Rightarrow> Inl AttributeError
      | Some st \<Rightarrow> state_load_local st n)"

definition load_local :: "'p frame \<Rightarrow> string \<Rightarrow> error + variable" where
  "load_local f n =
     (if shadows_enclosing f n \<or> shadows_global f n then Inl (KeyError n)
      else current_load_local f n)"

definition load_enclosing :: "'p frame \<Rightarrow> string \<Rightarrow> error + variable" where
  "load_enclosing f n =
     (if shadows_enclosing f n then current_load_local f n
      else (case map_of (u_initial_enclosing f) n of
              None \<Rightarrow> Inl (KeyError n)
            | Some var \<Rightarrow> Inr (with_name var n)))"

text \<open>
  \<open>load_builtin\<close> asks the context's loader, which is not part of the frame: it is the
  parameter \<open>load_builtin_by_name\<close>.
\<close>

definition load_builtin :: "(string \<Rightarrow> error + base_value) \<Rightarrow> string \<Rightarrow> error + variable" where
  "load_builtin load_builtin_by_name n =
     (case load_builtin_by_name n of
        Inl e \<Rightarrow> Inl e
      | Inr builtin \<Rightarrow> Inr (to_variable builtin (Some n)))"

definition load_global ::
  "(string \<Rightarrow> error + base_value) \<Rightarrow> 'p frame \<Rightarrow> string \<Rightarrow> error + variable" where
  "load_global load_builtin_by_name f n =
     (if shadows_global f n then current_load_local f n
      else (case (if is_module_frame f then current_load_local f n
                  else (case map_of (u_initial_globals f) n of
                          None \<Rightarrow> Inl (KeyError n)
                        | Some var \<Rightarrow> Inr (with_name var n))) of
              Inl (KeyError k) \<Rightarrow> load_builtin load_builtin_by_name n
            | r \<Rightarrow> r))"

definition load_deref :: "'p frame \<Rightarrow> string \<Rightarrow> error + variable" where
  "load_deref f n =
     (case load_local f n of
        Inl (KeyError k) \<Rightarrow> load_enclosing f n
      | r \<Rightarrow> r)"


subsection \<open>Child frames and return values\<close>

text \<open>
  \<open>make_child_frame\<close>. The truth test \<open>if self._final_locals\<close> fails for \<open>None\<close> and
  for an empty dictionary alike; \<open>val.to_variable()\<close> gives a Variable without a name.
  The function is given by the names of its enclosing scope, its name and its code.
\<close>

fun child_enclosing :: "'p frame \<Rightarrow> varmap \<Rightarrow> string list \<Rightarrow> varmap \<Rightarrow> error + varmap" where
  "child_enclosing f current_locals [] initial_enclosing = Inr initial_enclosing"
| "child_enclosing f current_locals (n # ns) initial_enclosing =
     (case map_of current_locals n of
        Some var \<Rightarrow>
          (if \<not> (\<not> shadows_global f n) then Inl AssertionError
           else child_enclosing f current_locals ns (AList.update n var initial_enclosing))
      | None \<Rightarrow>
          (case map_of (u_initial_enclosing f) n of
             None \<Rightarrow> Inl (KeyError n)
           | Some var \<Rightarrow> child_enclosing f current_locals ns (AList.update n var initial_enclosing)))"

fun child_globals :: "varmap \<Rightarrow> string list \<Rightarrow> varmap \<Rightarrow> error + varmap" where
  "child_globals current_locals [] initial_globals = Inr initial_globals"
| "child_globals current_locals (n # ns) initial_globals =
     (case map_of current_locals n of
        None \<Rightarrow> Inl (KeyError n)
      | Some var \<Rightarrow> child_globals current_locals ns (AList.update n var initial_globals))"

definition make_child_frame ::
  "'q frame \<Rightarrow> base_value \<Rightarrow> varmap \<Rightarrow> error + ('q frame) frame" where
  "make_child_frame f func initial_locals =
     (case func of
        InterpreterFunction func_name func_code enclosing_scope \<Rightarrow>
          (case (if u_final_locals f \<noteq> None \<and> u_final_locals f \<noteq> Some []
                 then (case final_locals f of
                         None \<Rightarrow> Inl AttributeError
                       | Some fl \<Rightarrow> Inr (map (\<lambda>(n, val). (n, to_variable val None)) fl))
                 else (case u_current_state f of
                         None \<Rightarrow> Inl AttributeError
                       | Some st \<Rightarrow> Inr st)) of
             Inl e \<Rightarrow> Inl e
           | Inr current_locals \<Rightarrow>
               (case child_enclosing f current_locals enclosing_scope [] of
                  Inl e \<Rightarrow> Inl e
                | Inr initial_enclosing \<Rightarrow>
                    (case (if is_module_frame f then Inr current_locals
                           else child_globals current_locals
                                  (get_global_names (u_shadowed_nonlocals f)) (u_initial_globals f)) of
                       Inl e \<Rightarrow> Inl e
                     | Inr initial_globals \<Rightarrow>
                         Frame_init func_name func_code initial_locals initial_enclosing
                           initial_globals (Some f))))
      | _ \<Rightarrow> Inl AttributeError)"


subsection \<open>Finalization\<close>

text \<open>
  \<open>target.set_attribute(attr_name, value)\<close> changes an abstract value in place. Values
  are immutable terms here, so the attribute writes of a finalization are returned as a
  list, in the order in which they are made: the target, the attribute name, the value.
\<close>

type_synonym attr_write = "base_value \<times> string \<times> base_value"

text \<open>
  \<open>_merge_nonlocals_into\<close>, first loop. \<open>merge_attr\<close> is the loop body for one item
  \<open>(n, var)\<close> of \<open>self._final_locals\<close>, which is \<open>fl\<close>; \<open>frame\<close> is the frame merged
  into, \<open>ws\<close> the attribute writes made so far.
\<close>

definition merge_attr ::
  "varmap \<Rightarrow> string \<times> variable \<Rightarrow> 'p frame option \<Rightarrow> attr_write list
     \<Rightarrow> error + ('p frame option \<times> attr_write list)" where
  "merge_attr fl item frame ws =
     (case item of (n, var) \<Rightarrow>
      (case rpartition n CHR ''.'' of (target_name, dot, attr_name) \<Rightarrow>
         if dot = [] \<or> map_of fl target_name = None then Inr (frame, ws)
         else
           (case map_of fl target_name of
              None \<Rightarrow> Inl (KeyError target_name)
            | Some target_var \<Rightarrow>
                (case (case frame of
                         Some fr \<Rightarrow>
                           (case load_local fr target_name of
                              Inl (KeyError k) \<Rightarrow> Inr True
                            | Inl e \<Rightarrow> Inl e
                            | Inr frame_target_var \<Rightarrow>
                                Inr (values_of target_var \<noteq> values_of frame_target_var))
                       | None \<Rightarrow> Inr True) of
                   Inl e \<Rightarrow> Inl e
                 | Inr store_on_target \<Rightarrow>
                     if store_on_target
                     then (let v = join_values (values_of var)
                           in Inr (frame, ws @ map (\<lambda>target. (target, attr_name, v))
                                                   (values_of target_var)))
                     else (case frame of
                             None \<Rightarrow> Inl AttributeError
                           | Some fr \<Rightarrow>
                               (case store_local fr n var of
                                  Inl e \<Rightarrow> Inl e
                                | Inr fr' \<Rightarrow> Inr (Some fr', ws)))))))"

fun merge_attrs ::
  "varmap \<Rightarrow> (string \<times> variable) list \<Rightarrow> 'p frame option \<Rightarrow> attr_write list
     \<Rightarrow> error + ('p frame option \<times> attr_write list)" where
  "merge_attrs fl [] frame ws = Inr (frame, ws)"
| "merge_attrs fl (item # items) frame ws =
     (case merge_attr fl item frame ws of
        Inl e \<Rightarrow> Inl e
      | Inr (frame', ws') \<Rightarrow> merge_attrs fl items frame' ws')"

text \<open>The second and the third loop: the names that shadow a nonlocal are stored into the frame.\<close>

fun merge_enclosing :: "varmap \<Rightarrow> string list \<Rightarrow> 'p frame \<Rightarrow> error + 'p frame" where
  "merge_enclosing fl [] fr = Inr fr"
| "merge_enclosing fl (n # ns) fr =
     (case map_of fl n of
        None \<Rightarrow> Inl (KeyError n)
      | Some var \<Rightarrow>
          (case store_deref fr n var of
             Inl e \<Rightarrow> Inl e
           | Inr fr' \<Rightarrow> merge_enclosing fl ns fr'))"

fun merge_globals :: "varmap \<Rightarrow> string list \<Rightarrow> 'p frame \<Rightarrow> error + 'p frame" where
  "merge_globals fl [] fr = Inr fr"
| "merge_globals fl (n # ns) fr =
     (case map_of fl n of
        None \<Rightarrow> Inl (KeyError n)
      | Some var \<Rightarrow>
          (case store_global fr n var of
             Inl e \<Rightarrow> Inl e
           | Inr fr' \<Rightarrow> merge_globals fl ns fr'))"

definition merge_nonlocals_into ::
  "'r frame \<Rightarrow> 'p frame option \<Rightarrow> error + ('p frame option \<times> attr_write list)" where
  "merge_nonlocals_into self frame =
     (case u_final_locals self of
        None \<Rightarrow> Inl AttributeError
      | Some fl \<Rightarrow>
          (case merge_attrs fl fl frame [] of
             Inl e \<Rightarrow> Inl e
           | Inr (frame1, ws) \<Rightarrow>
               (case frame1 of
                  None \<Rightarrow> Inr (None, ws)
                | Some fr1 \<Rightarrow>
                    (case merge_enclosing fl (get_enclosing_names (u_shadowed_nonlocals self)) fr1 of
                       Inl e \<Rightarrow> Inl e
                     | Inr fr2 \<Rightarrow>
                         (case merge_globals fl (get_global_names (u_shadowed_nonlocals self)) fr2 of
                            Inl e \<Rightarrow> Inl e
                          | Inr fr3 \<Rightarrow> Inr (Some fr3, ws))))))"

text \<open>
  \<open>run\<close>. The loop \<open>while True: self.step()\<close> belongs to the base class and to the
  instruction stream: it is the parameter \<open>steps\<close>, which takes the frame to its state
  after the last instruction. The creating frame as the merge has left it is the
  \<open>u_f_back\<close> of the result; the attribute writes are returned with it.
\<close>

definition run ::
  "(('q frame) frame \<Rightarrow> error + ('q frame) frame) \<Rightarrow> ('q frame) frame
     \<Rightarrow> error + (('q frame) frame \<times> attr_write list)" where
  "run steps self0 =
     (if \<not> (\<not> (u_stack self0 \<noteq> [])) then Inl AssertionError
      else
        (case steps self0 of
           Inl e \<Rightarrow> Inl e
         | Inr self \<Rightarrow>
             if \<not> (\<not> (u_stack self \<noteq> [])) then Inl AssertionError
             else
               (let live_parent =
                      (case u_f_back self of
                         None \<Rightarrow> None
                       | Some p \<Rightarrow> if final_locals p = None then Some p else None)
                in case merge_nonlocals_into self live_parent of
                     Inl e \<Rightarrow> Inl e
                   | Inr (merged, ws) \<Rightarrow>
                       (case u_final_locals self of
                          None \<Rightarrow> Inl AttributeError
                        | Some fl \<Rightarrow>
                            Inr (self\<lparr>u_f_back := (case merged of
                                                      None \<Rightarrow> u_f_back self
                                                    | Some p' \<Rightarrow> Some p'),
                                       u_current_state := None,
                                       final_locals :=
                                         Some (map (\<lambda>(n, var). (n, join_values (values_of var))) fl)\<rparr>,
                                 ws)))))"


subsection \<open>Calls\<close>

text \<open>
  What \<open>func.call(args)\<close> returns: the finished frame of the callee for a function
  (\<open>FrameReturn\<close>), or another object that answers \<open>get_return_value()\<close>
  (\<open>OtherReturn\<close>, with the value it answers). The method \<open>call\<close> of the abstract values
  is not part of the frame: it is the parameter \<open>call\<close>, which takes the callee, the
  positional arguments and the calling frame (\<open>Args.frame\<close>) and returns what the
  callee returns together with the calling frame as the call has left it.
\<close>

datatype 'f call_return = FrameReturn 'f | OtherReturn base_value



text \<open>
  The class construction of \<open>_call_function\<close> (the branch of \<open>__build_class__\<close>): it
  returns the new class and the calling frame, with the class appended to its classes.
\<close>

definition build_class ::
  "(base_value \<Rightarrow> variable list \<Rightarrow> 'q frame
      \<Rightarrow> error + ((('q frame) frame) call_return \<times> 'q frame))
   \<Rightarrow> variable list \<Rightarrow> 'q frame \<Rightarrow> error + (base_value \<times> 'q frame)" where
  "build_class call posargs self =
     (case posargs of
        [class_body, nm] \<Rightarrow>
          (case get_atomic_value class_body (Some is_InterpreterFunction) of
             Inl e \<Rightarrow> Inl e
           | Inr builder \<Rightarrow>
               (case call builder [] self of
                  Inl e \<Rightarrow> Inl e
                | Inr (ret, self') \<Rightarrow>
                    (case get_atomic_constant nm (Some (Plain C_str)) of
                       Inl e \<Rightarrow> Inl e
                     | Inr c \<Rightarrow>
                         (case c of
                            CStr cls_name \<Rightarrow>
                              (case ret of
                                 OtherReturn v \<Rightarrow> Inl AttributeError
                               | FrameReturn fr \<Rightarrow>
                                   (case final_locals fr of
                                      None \<Rightarrow> Inl TypeError
                                    | Some members \<Rightarrow>
                                        (let cls = InterpreterClass cls_name members
                                                     (u_functions fr) (u_classes fr)
                                         in Inr (cls, self'\<lparr>u_classes := u_classes self' @ [cls]\<rparr>))))
                          | _ \<Rightarrow> Inl TypeError))))
      | _ \<Rightarrow> Inl UnpackError)"



subsection \<open>MAKE_FUNCTION\<close>

text \<open>\<open>pyc_marshal.Flags.MAKE_FUNCTION_HAS_FREE_VARS\<close>, the flag 0x08 of the bytecode.\<close>

definition MAKE_FUNCTION_HAS_FREE_VARS :: nat where
  "MAKE_FUNCTION_HAS_FREE_VARS = 8"

text \<open>The comparison of version tuples, \<open>python_version >= (3, 11)\<close>.\<close>

definition version_ge :: "nat \<times> nat \<Rightarrow> nat \<times> nat \<Rightarrow> bool" where
  "version_ge v w = (fst v > fst w \<or> (fst v = fst w \<and> snd v \<ge> snd w))"

text \<open>
  An atomic constant popped off the stack. After \<open>get_atomic_constant\<close> has checked the
  class, the constant is of that class; the other cases cannot be reached.
\<close>

definition pop_code :: "variable list \<Rightarrow> error + (ordered_code \<times> variable list)" where
  "pop_code st =
     (case stack_pop st of
        Inl e \<Rightarrow> Inl e
      | Inr (var, st') \<Rightarrow>
          (case get_atomic_constant var (Some (Plain C_OrderedCode)) of
             Inl e \<Rightarrow> Inl e
           | Inr (CCode code) \<Rightarrow> Inr (code, st')
           | Inr c \<Rightarrow> Inl TypeError))"

definition pop_str :: "variable list \<Rightarrow> error + (string \<times> variable list)" where
  "pop_str st =
     (case stack_pop st of
        Inl e \<Rightarrow> Inl e
      | Inr (var, st') \<Rightarrow>
          (case get_atomic_constant var (Some (Plain C_str)) of
             Inl e \<Rightarrow> Inl e
           | Inr (CStr str) \<Rightarrow> Inr (str, st')
           | Inr c \<Rightarrow> Inl TypeError))"

text \<open>
  \<open>tuple(freevar.name for freevar in freevars)\<close> and \<open>assert all(enclosing_scope)\<close>:
  a tuple of Variables gives their names, which must be there and not empty. A string
  can be iterated, but its characters have no name; the other constants cannot be iterated.
\<close>

definition freevar_names :: "pyconst \<Rightarrow> error + string list" where
  "freevar_names freevars =
     (case freevars of
        CTuple vars \<Rightarrow>
          (if \<not> list_all (\<lambda>var. var_name var \<noteq> None \<and> var_name var \<noteq> Some []) vars
           then Inl AssertionError
           else Inr (map (\<lambda>var. case var_name var of Some n \<Rightarrow> n | None \<Rightarrow> []) vars))
      | CStr str \<Rightarrow> (if str = [] then Inr [] else Inl AttributeError)
      | _ \<Rightarrow> Inl TypeError)"

definition byte_MAKE_FUNCTION :: "'p frame \<Rightarrow> nat \<Rightarrow> error + 'p frame" where
  "byte_MAKE_FUNCTION self arg =
     (if arg \<notin> {0, MAKE_FUNCTION_HAS_FREE_VARS}
      then Inl (NotImplementedError ''MAKE_FUNCTION not fully implemented'')
      else
        (case (if version_ge (python_version (u_code self)) (3, 11)
               then (case pop_code (u_stack self) of
                       Inl e \<Rightarrow> Inl e
                     | Inr (code, st) \<Rightarrow> Inr (qualname code, code, st))
               else (case pop_str (u_stack self) of
                       Inl e \<Rightarrow> Inl e
                     | Inr (nm, st) \<Rightarrow>
                         (case pop_code st of
                            Inl e \<Rightarrow> Inl e
                          | Inr (code, st') \<Rightarrow> Inr (nm, code, st')))) of
           Inl e \<Rightarrow> Inl e
         | Inr (nm, code, st) \<Rightarrow>
             (case (if and arg MAKE_FUNCTION_HAS_FREE_VARS \<noteq> 0
                    then (case stack_pop st of
                            Inl e \<Rightarrow> Inl e
                          | Inr (var, st') \<Rightarrow>
                              (case get_atomic_constant var None of
                                 Inl e \<Rightarrow> Inl e
                               | Inr freevars \<Rightarrow>
                                   (case freevar_names freevars of
                                      Inl e \<Rightarrow> Inl e
                                    | Inr enclosing_scope \<Rightarrow> Inr (enclosing_scope, st'))))
                    else Inr ([], st)) of
                Inl e \<Rightarrow> Inl e
              | Inr (enclosing_scope, st1) \<Rightarrow>
                  (let func = InterpreterFunction nm code enclosing_scope;
                       fs = (if \<not> (st1 \<noteq> [] \<and> has_atomic_value (hd st1) BUILD_CLASS)
                             then u_functions self @ [func]
                             else u_functions self)
                   in Inr (self\<lparr>u_functions := fs,
                                u_stack := to_variable func None # st1\<rparr>)))))"

section \<open>The driver\<close>

text \<open>
  \<open>analyze.py\<close>. The virtual machine (\<open>rewrite/vm.py\<close>) and the loader are collaborators:
  \<open>from_source\<close>, \<open>analyze_all_defs\<close>, \<open>infer_stub\<close> and \<open>concat_all\<close> are parameters.
  Both entry points delete their depth arguments before anything else. The field
  \<open>context_a\<close> is the field \<open>context\<close> of \<open>Analysis\<close>.
\<close>

definition INIT_MAXIMUM_DEPTH :: int where
  "INIT_MAXIMUM_DEPTH = 4"

definition MAXIMUM_DEPTH :: int where
  "MAXIMUM_DEPTH = 3"

record ('ctx, 'ast) Analysis =
  context_a :: 'ctx
  ast :: "'ast option"
  ast_deps :: "'ast option"

definition check_types ::
  "(string \<Rightarrow> 'opt \<Rightarrow> 'vm) \<Rightarrow> ('vm \<Rightarrow> 'ctx) \<Rightarrow> string \<Rightarrow> 'opt \<Rightarrow> 'ldr \<Rightarrow> int \<Rightarrow> int
     \<Rightarrow> ('ctx, 'ast) Analysis" where
  "check_types from_source analyze_all_defs src options loader init_maximum_depth maximum_depth =
     (let vm = from_source src options;
          ctx = analyze_all_defs vm
      in \<lparr> context_a = ctx, ast = None, ast_deps = None \<rparr>)"

definition infer_types ::
  "(string \<Rightarrow> 'opt \<Rightarrow> 'vm) \<Rightarrow> ('vm \<Rightarrow> 'ctx \<times> 'ast) \<Rightarrow> ('ldr \<Rightarrow> 'ast) \<Rightarrow> string \<Rightarrow> 'opt \<Rightarrow> 'ldr
     \<Rightarrow> int \<Rightarrow> int \<Rightarrow> ('ctx, 'ast) Analysis" where
  "infer_types from_source infer_stub concat_all src options loader init_maximum_depth maximum_depth =
     (let vm = from_source src options;
          (ctx, ast') = infer_stub vm;
          deps = concat_all loader
      in \<lparr> context_a = ctx, ast = Some ast', ast_deps = Some deps \<rparr>)"


section \<open>Specification functions\<close>

text \<open>
  The attribute writes that the item \<open>(n, var)\<close> of the final locals \<open>fl\<close> stands for
  when it is applied to its target: none unless \<open>n\<close> is a compound name
  \<open>target.attr\<close> whose target is bound in \<open>fl\<close>; otherwise one write of the joined
  value of \<open>var\<close> to the attribute, for each value of the target, in order.
\<close>

definition writes_on_targets :: "varmap \<Rightarrow> string \<times> variable \<Rightarrow> attr_write list" where
  "writes_on_targets fl item =
     (case item of (n, var) \<Rightarrow>
        (case rpartition n CHR ''.'' of (target_name, dot, attr_name) \<Rightarrow>
           if dot = [] then []
           else (case map_of fl target_name of
                   None \<Rightarrow> []
                 | Some target_var \<Rightarrow>
                     map (\<lambda>target. (target, attr_name, join_values (values_of var)))
                         (values_of target_var))))"


section \<open>Example frames\<close>

text \<open>
  Concrete values and frames. \<open>new_frame\<close> is a frame as \<open>Frame.__init__\<close> leaves it;
  \<open>last_state\<close> is an instruction stream that changes nothing, after which the base
  class records the locals of the current state as \<open>_final_locals\<close>.
\<close>

definition ex_code :: ordered_code where
  "ex_code = \<lparr> qualname = ''g'', python_version = (3, 11) \<rparr>"

definition const_var :: "int \<Rightarrow> variable" where
  "const_var i = to_variable (PythonConstant (CInt i)) None"

definition ex_object :: base_value where
  "ex_object = Instance (InterpreterClass ''Foo'' [] [] [])"

definition new_frame :: "string \<Rightarrow> varmap \<Rightarrow> varmap \<Rightarrow> varmap \<Rightarrow> 'p option \<Rightarrow> 'p frame" where
  "new_frame nm initial_locals initial_enclosing initial_globals f_back =
     \<lparr> name = nm, u_code = ex_code,
       u_current_state = Some initial_locals,
       u_final_locals = None,
       final_locals = None,
       u_initial_enclosing = initial_enclosing,
       u_initial_globals = initial_globals,
       u_f_back = f_back,
       u_stack = [],
       u_shadowed_nonlocals = \<lparr> u_enclosing = [], u_globals = [] \<rparr>,
       u_functions = [], u_classes = [], u_returns = [] \<rparr>"

definition last_state :: "'p frame \<Rightarrow> error + 'p frame" where
  "last_state f = Inr (f\<lparr>u_final_locals := u_current_state f\<rparr>)"

text \<open>
  The module frame of a module whose only global is \<open>y\<close>, and a frame of a function
  \<open>g\<close> created without a creating frame of its own.
\<close>

definition ex_module :: "unit frame" where
  "ex_module = new_frame ''__main__'' [(''y'', const_var 0)] [] [(''y'', const_var 0)] None"

definition ex_function_frame :: "unit frame" where
  "ex_function_frame = new_frame ''g'' [(''x'', to_variable ex_object None)] [] [] None"

text \<open>
  A callee for the examples. A \<open>SimpleFunction\<close> returns the constant 1 without a frame.
  An interpreter function is called the way \<open>InterpreterFunction.call\<close> is described:
  a child frame of the calling frame is made and run, here over a body that binds \<open>a\<close>
  to 1, and the finished frame is returned.
\<close>

definition ex_body :: "'p frame \<Rightarrow> error + 'p frame" where
  "ex_body f =
     (case store_local f ''a'' (const_var 1) of
        Inl e \<Rightarrow> Inl e
      | Inr f' \<Rightarrow> last_state f')"

definition ex_call ::
  "base_value \<Rightarrow> variable list \<Rightarrow> unit frame
     \<Rightarrow> error + (((unit frame) frame) call_return \<times> unit frame)" where
  "ex_call func posargs self =
     (case func of
        SimpleFunction n \<Rightarrow> Inr (OtherReturn (PythonConstant (CInt 1)), self)
      | InterpreterFunction n c e \<Rightarrow>
          (case make_child_frame self func [] of
             Inl e \<Rightarrow> Inl e
           | Inr child \<Rightarrow>
               (case run ex_body child of
                  Inl e \<Rightarrow> Inl e
                | Inr (child', ws) \<Rightarrow>
                    Inr (FrameReturn child', case u_f_back child' of Some p \<Rightarrow> p | None \<Rightarrow> self)))
      | _ \<Rightarrow> Inl TypeError)"

definition ex_class_args :: "variable list" where
  "ex_class_args =
     [to_variable (InterpreterFunction ''C'' ex_code []) None,
      to_variable (PythonConstant (CStr ''C'')) None]"

definition ex_class :: base_value where
  "ex_class = InterpreterClass ''C'' [(''a'', PythonConstant (CInt 1))] [] []"

text \<open>
  A frame of \<open>g\<close> as \<open>make_child_frame\<close> of the module frame returns it when \<open>y\<close> is in
  the enclosing scope of \<open>g\<close>; the function frame after it has finished; the function
  frame after \<open>global x\<close> and an assignment to \<open>x\<close>; and a frame of \<open>f\<close> whose locals
  are \<open>x\<close> and the attribute \<open>x.a\<close>, as after \<open>x.a = 1\<close>.
\<close>

definition ex_child :: "(unit frame) frame" where
  "ex_child = new_frame ''g'' [] [(''y'', const_var 0)] [(''y'', const_var 0)] (Some ex_module)"

definition ex_finalized :: "unit frame" where
  "ex_finalized =
     ex_function_frame\<lparr>u_current_state := None,
                        u_final_locals := Some [(''x'', to_variable ex_object None)],
                        final_locals := Some [(''x'', ex_object)]\<rparr>"


definition ex_attr_locals :: varmap where
  "ex_attr_locals = [(''x'', to_variable ex_object None), (''x.a'', const_var 1)]"

definition ex_attr_frame :: "'p option \<Rightarrow> 'p frame" where
  "ex_attr_frame f_back = new_frame ''f'' ex_attr_locals [] [] f_back"








section \<open>Theorems\<close>

lemmas load_store_defs =
  store_local_def store_enclosing_def store_global_def store_deref_def
  shadows_enclosing_def shadows_global_def current_load_local_def load_local_def
  load_enclosing_def load_global_def load_deref_def state_load_local_def state_store_local_def
  add_enclosing_def add_global_def has_enclosing_def has_global_def

subsection \<open>The driver\<close>

text \<open>
  C1, as amended. \<open>check_types\<close> and \<open>infer_types\<close> accept the two depths and discard
  them: the \<open>Analysis\<close> they return is the same for every pair of supplied depths,
  whatever the virtual machine and the loader do.
\<close>

theorem depths_are_discarded:
  "check_types from_source analyze_all_defs src options loader d1 d2 =
     check_types from_source analyze_all_defs src options loader d1' d2'
   \<and> infer_types from_source infer_stub concat_all src options loader d1 d2 =
     infer_types from_source infer_stub concat_all src options loader d1' d2'"
  by (simp add: check_types_def infer_types_def)

text \<open>
  The claim as stated fails: for a self-recursive function the result with the depths
  0 and 0 is the result with the default depths 4 and 3. The virtual machine here keeps
  the source as its context.
\<close>

theorem depths_bound_frames_counterexample:
  "(check_types (\<lambda>src (options :: unit). src) (\<lambda>vm. vm)
       ''def f(): return f()'' () () 0 0 :: (string, unit) Analysis)
     = check_types (\<lambda>src options. src) (\<lambda>vm. vm)
       ''def f(): return f()'' () () INIT_MAXIMUM_DEPTH MAXIMUM_DEPTH
   \<and> (infer_types (\<lambda>src (options :: unit). src) (\<lambda>vm. (vm, ())) (\<lambda>loader :: unit. ())
       ''def f(): return f()'' () () 0 0 :: (string, unit) Analysis)
     = infer_types (\<lambda>src options. src) (\<lambda>vm. (vm, ())) (\<lambda>loader. ())
       ''def f(): return f()'' () () INIT_MAXIMUM_DEPTH MAXIMUM_DEPTH"
  by (simp add: check_types_def infer_types_def)

subsection \<open>Atomic reads and joins\<close>


text \<open>
  C7. \<open>get_atomic_constant\<close> fails on a Variable with two or more bindings; on a Variable
  whose single binding is a constant it fails with the \<open>ValueError\<close> of the type mismatch
  when the constant is not an instance of the expected class, and returns the constant
  itself when it is, or when no class is expected.
\<close>

theorem get_atomic_constant_contract:
  "get_atomic_constant (Variable (b1 # b2 # bs) n) typ = Inl AtomicValueError
   \<and> get_atomic_constant (Variable [Binding (PythonConstant c) cond] n) (Some (Plain k)) =
       (if isinstance c k then Inr c else Inl (ValueError k (class_of c)))
   \<and> get_atomic_constant (Variable [Binding (PythonConstant c) cond] n) (Some (Generic k)) =
       (if isinstance c k then Inr c else Inl (ValueError k (class_of c)))
   \<and> get_atomic_constant (Variable [Binding (PythonConstant c) cond] n) None = Inr c"
  by (simp add: get_atomic_constant_def get_atomic_value_def)

theorem get_atomic_constant_contract_witness:
  "get_atomic_constant
     (Variable [Binding (PythonConstant (CStr ''a'')) TRUE, Binding (PythonConstant (CStr ''b'')) TRUE] None)
     (Some (Plain C_str)) = Inl AtomicValueError
   \<and> get_atomic_constant (Variable [Binding (PythonConstant (CStr ''a'')) TRUE] None) (Some (Plain C_tuple))
       = Inl (ValueError C_tuple C_str)
   \<and> get_atomic_constant (Variable [Binding (PythonConstant (CStr ''a'')) TRUE] None) (Some (Plain C_str))
       = Inr (CStr ''a'')"
  using get_atomic_constant_contract [of "Binding (PythonConstant (CStr ''a'')) TRUE"
          "Binding (PythonConstant (CStr ''b'')) TRUE" "[]" None "Some (Plain C_str)" "CStr ''a''" TRUE C_tuple]
        get_atomic_constant_contract [of "Binding (PythonConstant (CStr ''a'')) TRUE"
          "Binding (PythonConstant (CStr ''b'')) TRUE" "[]" None "Some (Plain C_str)" "CStr ''a''" TRUE C_str]
  by (simp add: isinstance_def issubclass_def)

subsection \<open>Construction of frames\<close>

lemma dict_eq_iff: "dict_eq a b \<longleftrightarrow> map_of a = map_of b"
proof
  assume h: "dict_eq a b"
  show "map_of a = map_of b"
  proof
    fix k
    show "map_of a k = map_of b k"
    proof (cases "k \<in> fst ` set a \<union> fst ` set b")
      case True
      with h show ?thesis by (auto simp: dict_eq_def list_all_iff)
    next
      case False
      then have "map_of a k = None" "map_of b k = None" by (simp_all add: map_of_eq_None_iff)
      then show ?thesis by simp
    qed
  qed
next
  assume "map_of a = map_of b"
  then show "dict_eq a b" by (simp add: dict_eq_def list_all_iff)
qed

text \<open>
  C8. A frame that \<open>Frame.__init__\<close> returns has equal initial locals and globals if it is
  the module frame, and a creating frame if its initial enclosing scope is not empty;
  the construction fails with an \<open>AssertionError\<close> when either is violated; and
  \<open>make_module_frame\<close> always returns a module frame whose locals are its globals.
\<close>

theorem Frame_init_invariants:
  "(Frame_init nm code il ie ig fb = Inr f \<longrightarrow>
      (nm = ''__main__'' \<longrightarrow> map_of il = map_of ig) \<and> (ie \<noteq> [] \<longrightarrow> fb \<noteq> None)
      \<and> name f = nm \<and> u_current_state f = Some il \<and> u_initial_enclosing f = ie
      \<and> u_initial_globals f = ig \<and> u_f_back f = fb)
   \<and> (nm = ''__main__'' \<and> map_of il \<noteq> map_of ig \<longrightarrow> Frame_init nm code il ie ig fb = Inl AssertionError)
   \<and> (ie \<noteq> [] \<and> fb = None \<longrightarrow> Frame_init nm code il ie ig fb = Inl AssertionError)
   \<and> (\<exists>m. make_module_frame code ig = Inr m \<and> is_module_frame m
          \<and> u_current_state m = Some ig \<and> u_initial_globals m = ig
          \<and> u_initial_enclosing m = [] \<and> u_f_back m = None)"
  by (auto simp: Frame_init_def make_module_frame_def is_module_frame_def dict_eq_iff)

theorem Frame_init_invariants_witness:
  "Frame_init ''__main__'' ex_code [(''y'', const_var 0)] [] [(''y'', const_var 0)] None = Inr ex_module
   \<and> map_of [(''y'', const_var 0)] = map_of [(''y'', const_var 0)]
   \<and> u_initial_globals ex_module = [(''y'', const_var 0)]
   \<and> u_current_state ex_module = Some [(''y'', const_var 0)]
   \<and> map_of [(''y'', const_var 0)] \<noteq> map_of ([] :: varmap)
   \<and> Frame_init ''__main__'' ex_code [(''y'', const_var 0)] [] [] (None :: unit option) = Inl AssertionError
   \<and> Frame_init ''g'' ex_code [] [(''y'', const_var 0)] [] (None :: unit option) = Inl AssertionError
   \<and> make_module_frame ex_code [(''y'', const_var 0)] = Inr ex_module"
proof -
  have ok: "Frame_init ''__main__'' ex_code [(''y'', const_var 0)] [] [(''y'', const_var 0)] None = Inr ex_module"
    by (simp add: Frame_init_def ex_module_def new_frame_def dict_eq_def)
  have ne: "map_of [(''y'', const_var 0)] \<noteq> map_of ([] :: varmap)"
    by simp
  have mm: "make_module_frame ex_code [(''y'', const_var 0)] = Inr ex_module"
    using ok by (simp add: make_module_frame_def)
  from ok ne mm
    Frame_init_invariants [where nm = "''__main__''" and code = ex_code
       and il = "[(''y'', const_var 0)]" and ie = "[]" and ig = "[(''y'', const_var 0)]"
       and fb = "None :: unit option" and f = ex_module]
    Frame_init_invariants [where nm = "''__main__''" and code = ex_code
       and il = "[(''y'', const_var 0)]" and ie = "[]" and ig = "[]"
       and fb = "None :: unit option" and f = ex_module]
    Frame_init_invariants [where nm = "''g''" and code = ex_code
       and il = "[]" and ie = "[(''y'', const_var 0)]" and ig = "[]"
       and fb = "None :: unit option" and f = ex_module]
  show ?thesis by blast
qed

subsection \<open>Loads and stores\<close>

lemma map_of_update_same [simp]: "map_of (AList.update k v al) k = Some v"
  by (simp add: update_conv')

text \<open>
  C9. In a frame that is not the module frame, a name marked as shadowing the enclosing
  or the global scope is a \<open>KeyError\<close> for \<open>load_local\<close>. After \<open>store_enclosing\<close> (or
  \<open>store_deref\<close> of a name of the initial enclosing scope) the value is in the current
  state and \<open>load_enclosing\<close> and \<open>load_deref\<close> return it; after \<open>store_global\<close> the
  value is in the current state and \<open>load_global\<close> returns it. In the module frame
  \<open>store_global\<close> hides no name: \<open>load_local\<close> returns the value stored, unless the
  name was already marked as shadowing the enclosing scope.
\<close>

theorem shadowed_names_hidden_from_load_local:
  "(\<not> is_module_frame f \<and> (shadows_enclosing f n \<or> has_global (u_shadowed_nonlocals f) n)
      \<longrightarrow> load_local f n = Inl (KeyError n))
   \<and> (store_enclosing f n v = Inr f' \<longrightarrow>
         shadows_enclosing f' n \<and> load_local f' n = Inl (KeyError n)
         \<and> current_load_local f' n = Inr v
         \<and> load_enclosing f' n = Inr v \<and> load_deref f' n = Inr v)
   \<and> (n \<in> fst ` set (u_initial_enclosing f) \<and> store_deref f n v = Inr f' \<longrightarrow>
         shadows_enclosing f' n \<and> load_local f' n = Inl (KeyError n)
         \<and> current_load_local f' n = Inr v
         \<and> load_enclosing f' n = Inr v \<and> load_deref f' n = Inr v)
   \<and> (\<not> is_module_frame f \<and> store_global f n v = Inr f' \<longrightarrow>
         shadows_global f' n \<and> load_local f' n = Inl (KeyError n)
         \<and> current_load_local f' n = Inr v
         \<and> load_global load_builtin_by_name f' n = Inr v)
   \<and> (is_module_frame f \<and> store_global f n v = Inr f' \<longrightarrow>
         \<not> shadows_global f' n
         \<and> (\<forall>m. (shadows_enclosing f' m \<or> shadows_global f' m) = (shadows_enclosing f m \<or> shadows_global f m))
         \<and> load_local f' n = (if shadows_enclosing f n then Inl (KeyError n) else Inr v))"
  by (auto simp: load_store_defs is_module_frame_def split: option.splits sum.splits)


theorem shadowed_names_hidden_from_load_local_witness:
  "\<not> is_module_frame ex_child
   \<and> ''y'' \<in> fst ` set (u_initial_enclosing ex_child)
   \<and> store_deref ex_child ''y'' (const_var 1)
        = Inr (ex_child\<lparr>u_current_state := Some [(''y'', const_var 1)],
                        u_shadowed_nonlocals := \<lparr> u_enclosing = [''y''], u_globals = [] \<rparr>\<rparr>)
   \<and> load_local (ex_child\<lparr>u_current_state := Some [(''y'', const_var 1)],
                        u_shadowed_nonlocals := \<lparr> u_enclosing = [''y''], u_globals = [] \<rparr>\<rparr>) ''y''
        = Inl (KeyError ''y'')
   \<and> load_deref (ex_child\<lparr>u_current_state := Some [(''y'', const_var 1)],
                        u_shadowed_nonlocals := \<lparr> u_enclosing = [''y''], u_globals = [] \<rparr>\<rparr>) ''y''
        = Inr (const_var 1)
   \<and> store_global ex_child ''y'' (const_var 1)
        = Inr (ex_child\<lparr>u_current_state := Some [(''y'', const_var 1)],
                        u_shadowed_nonlocals := \<lparr> u_enclosing = [], u_globals = [''y''] \<rparr>\<rparr>)
   \<and> load_local (ex_child\<lparr>u_current_state := Some [(''y'', const_var 1)],
                        u_shadowed_nonlocals := \<lparr> u_enclosing = [], u_globals = [''y''] \<rparr>\<rparr>) ''y''
        = Inl (KeyError ''y'')
   \<and> load_global (\<lambda>n. Inl (KeyError n))
        (ex_child\<lparr>u_current_state := Some [(''y'', const_var 1)],
                        u_shadowed_nonlocals := \<lparr> u_enclosing = [], u_globals = [''y''] \<rparr>\<rparr>) ''y''
        = Inr (const_var 1)
   \<and> is_module_frame ex_module
   \<and> store_global ex_module ''y'' (const_var 1)
        = Inr (ex_module\<lparr>u_current_state := Some [(''y'', const_var 1)],
                         u_shadowed_nonlocals := \<lparr> u_enclosing = [], u_globals = [''y''] \<rparr>\<rparr>)
   \<and> load_local (ex_module\<lparr>u_current_state := Some [(''y'', const_var 1)],
                         u_shadowed_nonlocals := \<lparr> u_enclosing = [], u_globals = [''y''] \<rparr>\<rparr>) ''y''
        = Inr (const_var 1)"
proof -
  let ?e = "ex_child\<lparr>u_current_state := Some [(''y'', const_var 1)],
                        u_shadowed_nonlocals := \<lparr> u_enclosing = [''y''], u_globals = [] \<rparr>\<rparr>"
  let ?g = "ex_child\<lparr>u_current_state := Some [(''y'', const_var 1)],
                        u_shadowed_nonlocals := \<lparr> u_enclosing = [], u_globals = [''y''] \<rparr>\<rparr>"
  let ?m = "ex_module\<lparr>u_current_state := Some [(''y'', const_var 1)],
                         u_shadowed_nonlocals := \<lparr> u_enclosing = [], u_globals = [''y''] \<rparr>\<rparr>"
  have nm: "\<not> is_module_frame ex_child" "is_module_frame ex_module"
    "''y'' \<in> fst ` set (u_initial_enclosing ex_child)" "\<not> shadows_enclosing ex_module ''y''"
    by (simp_all add: is_module_frame_def shadows_enclosing_def has_enclosing_def
          ex_child_def ex_module_def new_frame_def)
  have se: "store_deref ex_child ''y'' (const_var 1) = Inr ?e"
    by (simp add: load_store_defs ex_child_def new_frame_def)
  have sg: "store_global ex_child ''y'' (const_var 1) = Inr ?g"
    by (simp add: load_store_defs ex_child_def new_frame_def)
  have sm: "store_global ex_module ''y'' (const_var 1) = Inr ?m"
    by (simp add: load_store_defs ex_module_def new_frame_def)
  have a: "load_local ?e ''y'' = Inl (KeyError ''y'') \<and> load_deref ?e ''y'' = Inr (const_var 1)"
    using shadowed_names_hidden_from_load_local [where f = ex_child and n = "''y''"
        and v = "const_var 1" and f' = ?e] nm se
    by blast
  have b: "load_local ?g ''y'' = Inl (KeyError ''y'')
           \<and> load_global (\<lambda>n. Inl (KeyError n)) ?g ''y'' = Inr (const_var 1)"
    using shadowed_names_hidden_from_load_local [where f = ex_child and n = "''y''"
        and v = "const_var 1" and f' = ?g and load_builtin_by_name = "\<lambda>n. Inl (KeyError n)"] nm sg
    by blast
  have c: "load_local ?m ''y'' = Inr (const_var 1)"
    using shadowed_names_hidden_from_load_local [where f = ex_module and n = "''y''"
        and v = "const_var 1" and f' = ?m] nm sm
    by simp
  from nm se sg sm a b c show ?thesis by blast
qed

subsection \<open>Calls and class construction\<close>




text \<open>The example callee, evaluated.\<close>

lemmas ex_defs = ex_module_def ex_function_frame_def new_frame_def ex_code_def const_var_def
  to_variable_def ex_object_def ex_body_def last_state_def ex_class_args_def ex_class_def

lemma ex_call_class_body:
  "ex_call (InterpreterFunction ''C'' ex_code []) [] ex_module =
     Inr (FrameReturn ((new_frame ''C'' [] [] [(''y'', const_var 0)] (Some ex_module))
            \<lparr>u_current_state := None,
              u_final_locals := Some [(''a'', const_var 1)],
              final_locals := Some [(''a'', PythonConstant (CInt 1))]\<rparr>), ex_module)"
  by (simp add: ex_call_def make_child_frame_def Frame_init_def is_module_frame_def run_def
         merge_nonlocals_into_def merge_attr_def rpartition_def get_enclosing_names_def
         get_global_names_def store_local_def state_store_local_def join_values_def values_of_def
         ex_defs)

lemma ex_module_fields:
  "u_classes ex_module = []" "u_stack ex_module = []" "u_functions ex_module = []"
  "name ex_module = ''__main__''"
  by (simp_all add: ex_module_def new_frame_def)

lemma ex_build_class:
  "build_class ex_call ex_class_args ex_module = Inr (ex_class, ex_module\<lparr>u_classes := [ex_class]\<rparr>)"
  by (simp add: build_class_def ex_class_args_def ex_call_class_body get_atomic_value_def
        get_atomic_constant_def isinstance_def issubclass_def to_variable_def ex_class_def
        new_frame_def Let_def ex_module_fields)





lemma build_class_result:
  assumes "build_class call posargs self = Inr (cls, self')"
  shows "\<exists>class_body nm builder child self1 members cls_name.
          posargs = [class_body, nm]
          \<and> get_atomic_value class_body (Some is_InterpreterFunction) = Inr builder
          \<and> call builder [] self = Inr (FrameReturn child, self1)
          \<and> final_locals child = Some members
          \<and> get_atomic_constant nm (Some (Plain C_str)) = Inr (CStr cls_name)
          \<and> cls = InterpreterClass cls_name members (u_functions child) (u_classes child)
          \<and> self' = self1\<lparr>u_classes := u_classes self1 @ [cls]\<rparr>"
proof -
  from assms obtain class_body nm where p: "posargs = [class_body, nm]"
    by (simp add: build_class_def split: list.splits)
  from assms p obtain builder where b: "get_atomic_value class_body (Some is_InterpreterFunction) = Inr builder"
    by (simp add: build_class_def split: sum.splits)
  from assms p b obtain ret self1 where c: "call builder [] self = Inr (ret, self1)"
    by (simp add: build_class_def split: sum.splits prod.splits)
  from assms p b c obtain k where k: "get_atomic_constant nm (Some (Plain C_str)) = Inr k"
    by (simp add: build_class_def split: sum.splits)
  from assms p b c k obtain cls_name where n: "k = CStr cls_name"
    by (simp add: build_class_def split: pyconst.splits)
  from assms p b c k n obtain child where r: "ret = FrameReturn child"
    by (simp add: build_class_def split: call_return.splits)
  from assms p b c k n r obtain members where m: "final_locals child = Some members"
    by (simp add: build_class_def split: option.splits)
  from assms p b c k n r m
  have "cls = InterpreterClass cls_name members (u_functions child) (u_classes child)
        \<and> self' = self1\<lparr>u_classes := u_classes self1 @ [cls]\<rparr>"
    by (auto simp add: build_class_def Let_def)
  with p b c k n r m show ?thesis by blast
qed

lemma make_function_result:
  assumes "byte_MAKE_FUNCTION frame arg = Inr frame'"
  shows "\<exists>func below. u_stack frame' = to_variable func None # below
          \<and> is_InterpreterFunction func
          \<and> u_functions frame' =
              (if below \<noteq> [] \<and> has_atomic_value (hd below) BUILD_CLASS
               then u_functions frame else u_functions frame @ [func])"
proof -
  let ?first = "if version_ge (python_version (u_code frame)) (3, 11)
               then (case pop_code (u_stack frame) of
                       Inl e \<Rightarrow> Inl e
                     | Inr (code, st) \<Rightarrow> Inr (qualname code, code, st))
               else (case pop_str (u_stack frame) of
                       Inl e \<Rightarrow> Inl e
                     | Inr (nm, st) \<Rightarrow>
                         (case pop_code st of
                            Inl e \<Rightarrow> Inl e
                          | Inr (code, st') \<Rightarrow> Inr (nm, code, st')))"
  from assms have a: "arg \<in> {0, MAKE_FUNCTION_HAS_FREE_VARS}"
    by (simp add: byte_MAKE_FUNCTION_def split: if_splits)
  from assms a obtain nm code st where f: "?first = Inr (nm, code, st)"
    by (cases ?first) (auto simp: byte_MAKE_FUNCTION_def)
  let ?second = "if and arg MAKE_FUNCTION_HAS_FREE_VARS \<noteq> 0
                    then (case stack_pop st of
                            Inl e \<Rightarrow> Inl e
                          | Inr (var, st') \<Rightarrow>
                              (case get_atomic_constant var None of
                                 Inl e \<Rightarrow> Inl e
                               | Inr freevars \<Rightarrow>
                                   (case freevar_names freevars of
                                      Inl e \<Rightarrow> Inl e
                                    | Inr enclosing_scope \<Rightarrow> Inr (enclosing_scope, st'))))
                    else Inr ([], st)"
  from assms a f obtain enclosing_scope st1 where g: "?second = Inr (enclosing_scope, st1)"
    by (cases ?second) (auto simp: byte_MAKE_FUNCTION_def)
  from assms a f g
  have "frame' = frame\<lparr>u_functions :=
                          (if \<not> (st1 \<noteq> [] \<and> has_atomic_value (hd st1) BUILD_CLASS)
                           then u_functions frame @ [InterpreterFunction nm code enclosing_scope]
                           else u_functions frame),
                        u_stack := to_variable (InterpreterFunction nm code enclosing_scope) None # st1\<rparr>"
    by (auto simp: byte_MAKE_FUNCTION_def Let_def)
  then have "u_stack frame' = to_variable (InterpreterFunction nm code enclosing_scope) None # st1
        \<and> is_InterpreterFunction (InterpreterFunction nm code enclosing_scope)
        \<and> u_functions frame' =
              (if st1 \<noteq> [] \<and> has_atomic_value (hd st1) BUILD_CLASS
               then u_functions frame else u_functions frame @ [InterpreterFunction nm code enclosing_scope])"
    by simp
  then show ?thesis by blast
qed

text \<open>
  C4. A class that the \<open>__build_class__\<close> branch builds comes from exactly two arguments:
  the class body, an atomic interpreter function, is called with the calling frame and
  returns its finished frame; the members of the class are the final locals of that frame,
  its functions and classes those of that frame, its name the atomic string constant of
  the second argument. And \<open>MAKE_FUNCTION\<close> leaves the frame's functions as they are when
  the value under the new function on the stack is atomically \<open>__build_class__\<close>, and
  appends the new function otherwise.
\<close>

theorem class_construction:
  "(build_class call posargs self = Inr (cls, self') \<longrightarrow>
      (\<exists>class_body nm builder child self1 members cls_name.
          posargs = [class_body, nm]
          \<and> get_atomic_value class_body (Some is_InterpreterFunction) = Inr builder
          \<and> call builder [] self = Inr (FrameReturn child, self1)
          \<and> final_locals child = Some members
          \<and> get_atomic_constant nm (Some (Plain C_str)) = Inr (CStr cls_name)
          \<and> cls = InterpreterClass cls_name members (u_functions child) (u_classes child)
          \<and> self' = self1\<lparr>u_classes := u_classes self1 @ [cls]\<rparr>))
   \<and> (byte_MAKE_FUNCTION frame arg = Inr frame' \<longrightarrow>
      (\<exists>func below. u_stack frame' = to_variable func None # below
          \<and> is_InterpreterFunction func
          \<and> u_functions frame' =
              (if below \<noteq> [] \<and> has_atomic_value (hd below) BUILD_CLASS
               then u_functions frame else u_functions frame @ [func])))"
  using build_class_result [of call posargs self cls self'] make_function_result [of frame arg frame']
  by blast

theorem class_construction_witness:
  "build_class ex_call ex_class_args ex_module = Inr (ex_class, ex_module\<lparr>u_classes := [ex_class]\<rparr>)
   \<and> byte_MAKE_FUNCTION
        (ex_module\<lparr>u_stack := [to_variable (PythonConstant (CCode ex_code)) None,
                                 to_variable BUILD_CLASS None]\<rparr>) 0
       = Inr (ex_module\<lparr>u_stack := [to_variable (InterpreterFunction ''g'' ex_code []) None,
                                      to_variable BUILD_CLASS None]\<rparr>)
   \<and> (\<exists>class_body nm builder child self1 members cls_name.
          ex_class_args = [class_body, nm]
          \<and> get_atomic_value class_body (Some is_InterpreterFunction) = Inr builder
          \<and> ex_call builder [] ex_module = Inr (FrameReturn child, self1)
          \<and> final_locals child = Some members
          \<and> get_atomic_constant nm (Some (Plain C_str)) = Inr (CStr cls_name)
          \<and> ex_class = InterpreterClass cls_name members (u_functions child) (u_classes child))
   \<and> u_functions (ex_module\<lparr>u_stack := [to_variable (InterpreterFunction ''g'' ex_code []) None,
                                        to_variable BUILD_CLASS None]\<rparr>) = u_functions ex_module"
proof -
  let ?before = "ex_module\<lparr>u_stack := [to_variable (PythonConstant (CCode ex_code)) None,
                                 to_variable BUILD_CLASS None]\<rparr>"
  let ?after = "ex_module\<lparr>u_stack := [to_variable (InterpreterFunction ''g'' ex_code []) None,
                                      to_variable BUILD_CLASS None]\<rparr>"
  have m: "byte_MAKE_FUNCTION ?before 0 = Inr ?after"
    by (simp add: byte_MAKE_FUNCTION_def version_ge_def pop_code_def stack_pop_def
          get_atomic_constant_def get_atomic_value_def isinstance_def issubclass_def
          has_atomic_value_def to_variable_def ex_module_def new_frame_def ex_code_def)
  have "\<exists>class_body nm builder child self1 members cls_name.
          ex_class_args = [class_body, nm]
          \<and> get_atomic_value class_body (Some is_InterpreterFunction) = Inr builder
          \<and> ex_call builder [] ex_module = Inr (FrameReturn child, self1)
          \<and> final_locals child = Some members
          \<and> get_atomic_constant nm (Some (Plain C_str)) = Inr (CStr cls_name)
          \<and> ex_class = InterpreterClass cls_name members (u_functions child) (u_classes child)"
    using class_construction [where call = ex_call and posargs = ex_class_args and self = ex_module
      and cls = ex_class and self' = "ex_module\<lparr>u_classes := [ex_class]\<rparr>"
      and frame = ?before and arg = 0 and frame' = ?after] ex_build_class
    by blast
  moreover have "u_functions ?after = u_functions ex_module"
    by simp
  ultimately show ?thesis using ex_build_class m by blast
qed

subsection \<open>Finalization\<close>

lemma rpartition_examples:
  "rpartition ''x.a'' CHR ''.'' = (''x'', ''.'', ''a'')"
  "rpartition ''x'' CHR ''.'' = ('''', '''', ''x'')"
  "rpartition ''y'' CHR ''.'' = ('''', '''', ''y'')"
  by (simp_all add: rpartition_def)






lemma merge_attr_None:
  "merge_attr fl item None ws = Inr (None, ws @ writes_on_targets fl item)"
  by (auto simp: merge_attr_def writes_on_targets_def Let_def split: prod.splits option.splits)

lemma merge_attrs_None:
  "merge_attrs fl items None ws = Inr (None, ws @ concat (map (writes_on_targets fl) items))"
  by (induction items arbitrary: ws) (simp_all add: merge_attr_None)

lemma merge_nonlocals_into_None:
  "u_final_locals self = Some fl \<Longrightarrow>
     merge_nonlocals_into self None = Inr (None, concat (map (writes_on_targets fl) fl))"
  by (simp add: merge_nonlocals_into_def merge_attrs_None)

text \<open>
  C10, as amended. When the step loop of \<open>run\<close> has ended and the creating frame is
  already finalized, \<open>run\<close> returns the frame with its creating frame as it was, nothing
  stored into it, and the attribute writes are exactly those of the compound names whose
  target is bound in the final locals, each applied to every value of its target.
\<close>

theorem run_with_finalized_parent:
  assumes "steps self0 = Inr self" and "u_stack self0 = []" and "u_stack self = []"
    and "u_f_back self = Some p" and "final_locals p \<noteq> None"
    and "u_final_locals self = Some fl"
  shows "run steps self0 =
           Inr (self\<lparr>u_current_state := None,
                      final_locals := Some (map (\<lambda>(n, var). (n, join_values (values_of var))) fl)\<rparr>,
                concat (map (writes_on_targets fl) fl))"
  using assms by (auto simp: run_def Let_def merge_nonlocals_into_None)



theorem run_with_finalized_parent_witness:
  "last_state (ex_attr_frame (Some ex_finalized))
      = Inr ((ex_attr_frame (Some ex_finalized))\<lparr>u_final_locals := Some ex_attr_locals\<rparr>)
   \<and> final_locals ex_finalized \<noteq> None
   \<and> run last_state (ex_attr_frame (Some ex_finalized)) =
       Inr ((ex_attr_frame (Some ex_finalized))
              \<lparr>u_final_locals := Some ex_attr_locals,
                u_current_state := None,
                final_locals := Some [(''x'', ex_object), (''x.a'', PythonConstant (CInt 1))]\<rparr>,
            [(ex_object, ''a'', PythonConstant (CInt 1))])"
proof -
  let ?kid = "ex_attr_frame (Some ex_finalized)"
  let ?done = "?kid\<lparr>u_final_locals := Some ex_attr_locals\<rparr>"
  have s: "last_state ?kid = Inr ?done"
    by (simp add: last_state_def ex_attr_frame_def new_frame_def)
  have f: "final_locals ex_finalized \<noteq> None"
    by (simp add: ex_finalized_def)
  have k: "u_stack ?kid = []" "u_stack ?done = []" "u_f_back ?done = Some ex_finalized"
    "u_final_locals ?done = Some ex_attr_locals"
    by (simp_all add: ex_attr_frame_def new_frame_def)
  have w: "concat (map (writes_on_targets ex_attr_locals) ex_attr_locals)
             = [(ex_object, ''a'', PythonConstant (CInt 1))]"
    by (simp add: writes_on_targets_def ex_attr_locals_def rpartition_examples values_of_def
          to_variable_def const_var_def join_values_def)
  have j: "map (\<lambda>(n, var). (n, join_values (values_of var))) ex_attr_locals
             = [(''x'', ex_object), (''x.a'', PythonConstant (CInt 1))]"
    by (simp add: ex_attr_locals_def values_of_def to_variable_def const_var_def join_values_def)
  from run_with_finalized_parent [where steps = last_state, OF s k(1) k(2) k(3) f k(4)] s f w j
  show ?thesis by simp
qed

text \<open>
  The claim as stated, that every compound name bound in the frame is applied as an
  attribute write, fails: a frame whose only local is \<open>x.a\<close>, with \<open>x\<close> not bound in
  it, finishes under a finalized creating frame without any attribute write.
\<close>

theorem every_compound_name_counterexample:
  "final_locals ex_finalized \<noteq> None
   \<and> run last_state (new_frame ''f'' [(''x.a'', const_var 1)] [] [] (Some ex_finalized)) =
       Inr ((new_frame ''f'' [(''x.a'', const_var 1)] [] [] (Some ex_finalized))
              \<lparr>u_final_locals := Some [(''x.a'', const_var 1)],
                u_current_state := None,
                final_locals := Some [(''x.a'', PythonConstant (CInt 1))]\<rparr>,
            [])"
  by (simp add: run_def last_state_def new_frame_def ex_finalized_def merge_nonlocals_into_None
        writes_on_targets_def rpartition_examples values_of_def const_var_def to_variable_def
        join_values_def)












lemma child_enclosing_names:
  assumes "child_enclosing f cl ns acc = Inr ie"
  shows "fst ` set ie \<subseteq> fst ` set acc
           \<union> {y. y \<in> fst ` set (u_initial_enclosing f) \<or> \<not> shadows_global f y}"
  using assms
proof (induction ns arbitrary: acc)
  case Nil
  then show ?case by auto
next
  case (Cons n ns)
  show ?case
  proof (cases "map_of cl n")
    case None
    with Cons.prems obtain var where v: "map_of (u_initial_enclosing f) n = Some var"
      and r: "child_enclosing f cl ns (AList.update n var acc) = Inr ie"
      by (auto split: option.splits)
    from v have "n \<in> fst ` set (u_initial_enclosing f)"
      by (metis map_of_eq_None_iff option.distinct(1))
    with Cons.IH [OF r] show ?thesis by (auto simp: dom_update)
  next
    case (Some var)
    with Cons.prems have g: "\<not> shadows_global f n"
      and r: "child_enclosing f cl ns (AList.update n var acc) = Inr ie"
      by (auto split: if_splits)
    with Cons.IH [OF r] show ?thesis by (auto simp: dom_update)
  qed
qed

lemma make_child_frame_enclosing_scope:
  assumes "make_child_frame p func il = Inr c"
  shows "u_f_back c = Some p
     \<and> (\<forall>y \<in> fst ` set (u_initial_enclosing c).
           y \<in> fst ` set (u_initial_enclosing p) \<or> \<not> shadows_global p y)"
proof -
  from assms obtain fn fc es where f: "func = InterpreterFunction fn fc es"
    by (cases func) (simp_all add: make_child_frame_def)
  from assms f obtain cl ie ig where e: "child_enclosing p cl es [] = Inr ie"
    and i: "Frame_init fn fc il ie ig (Some p) = Inr c"
    by (auto simp: make_child_frame_def split: sum.splits)
  from i have "u_f_back c = Some p" "u_initial_enclosing c = ie"
    by (auto simp: Frame_init_def split: if_splits)
  with child_enclosing_names [OF e] show ?thesis by auto
qed








end
